theory Spec2Isabelle
  imports Complex_Main
begin

section \<open>Review visibility gate\<close>

text \<open>
  The handler of \<^verbatim>\<open>GET /api/reviews/store/:storeId\<close> (routes of the review API) maps
  the page of reviews it fetched to the objects it sends:
  \<^verbatim>\<open>const formattedReviews = reviews.map((review, index) => { ... })\<close>.
  The specification calls this map \<open>gate(reviews, viewer, isUnlocked)\<close>.
\<close>

subsection \<open>Data\<close>

text \<open>
  A review row as \<^verbatim>\<open>prisma.review.findMany\<close> returns it with
  \<^verbatim>\<open>include: { user: { select: { id, nickname, avatar } } }\<close>. A column that may be
  \<^verbatim>\<open>null\<close> is an \<open>option\<close>. Dates are milliseconds since the epoch.
\<close>

type_synonym user_id = string
type_synonym timestamp = int

record review_user =
  user_id :: user_id
  user_nickname :: "string option"
  user_avatar :: "string option"

record review =
  review_id :: int
  review_rating :: int
  review_content :: string
  review_images :: "string list"
  review_tags :: "string list"
  review_dollCount :: int
  review_spentAmount :: int
  review_dollImages :: "string list"
  review_user :: "review_user option"
  review_userName :: "string option"
  review_userId :: "user_id option"
  review_createdAt :: timestamp
  review_updatedAt :: timestamp

text \<open>
  \<^verbatim>\<open>req.user\<close> after the \<^verbatim>\<open>optionalAuth\<close> middleware: absent for a request
  without a valid token, an object with an \<^verbatim>\<open>id\<close> otherwise.
\<close>

datatype viewer = Anonymous | Authenticated user_id

text \<open>
  The object built for one review. \<open>isOwner\<close> is the value of
  \<^verbatim>\<open>req.user && review.userId === req.user.id\<close>: JavaScript's \<^verbatim>\<open>&&\<close> yields its
  left operand when that is falsy, so for an absent \<^verbatim>\<open>req.user\<close> the field holds
  that absent value (\<open>None\<close>) and not the boolean \<^verbatim>\<open>false\<close>.
  \<open>userAvatar\<close> is \<open>None\<close> when \<^verbatim>\<open>review.user?.avatar\<close> is undefined or null.
\<close>

record formatted_review =
  id' :: int
  rating :: int
  content :: string
  images :: "string list"
  tags :: "string list"
  dollCount :: int
  spentAmount :: int
  dollImages :: "string list"
  userName :: "string option"
  userAvatar :: "string option"
  isOwner :: "bool option"
  createdAt :: timestamp
  updatedAt :: timestamp
  isBlinded :: bool

subsection \<open>The map\<close>

text \<open>
  The placeholder of a blinded review, the UTF-8 bytes of the source's Korean literal
  (twenty characters, fifty bytes).
\<close>

definition placeholder :: string where
  "placeholder = map char_of
     [0xEA, 0xB4, 0x91, 0xEA, 0xB3, 0xA0, 0xEB, 0xA5, 0xBC, 0x20, 0xEC, 0x8B, 0x9C,
      0xEC, 0xB2, 0xAD, 0xED, 0x95, 0x98, 0xEB, 0xA9, 0xB4, 0x20, 0xED, 0x9B, 0x84,
      0xEA, 0xB8, 0xB0, 0xEB, 0xA5, 0xBC, 0x20, 0xEB, 0xB3, 0xBC, 0x20, 0xEC, 0x88,
      0x98, 0x20, 0xEC, 0x9E, 0x88, 0xEC, 0x96, 0xB4, 0xEC, 0x9A, 0x94 :: nat]"

text \<open>\<^verbatim>\<open>req.user && review.userId === req.user.id\<close>\<close>

definition owner_flag :: "viewer \<Rightarrow> review \<Rightarrow> bool option" where
  "owner_flag req_user review =
     (case req_user of
        Anonymous \<Rightarrow> None
      | Authenticated uid \<Rightarrow> Some (review_userId review = Some uid))"

definition baseReview :: "viewer \<Rightarrow> review \<Rightarrow> formatted_review" where
  "baseReview req_user review =
     \<lparr> id' = review_id review,
       rating = review_rating review,
       content = review_content review,
       images = review_images review,
       tags = review_tags review,
       dollCount = review_dollCount review,
       spentAmount = review_spentAmount review,
       dollImages = review_dollImages review,
       userName = (case review_user review of
                     Some u \<Rightarrow> user_nickname u
                   | None \<Rightarrow> review_userName review),
       userAvatar = (case review_user review of
                       Some u \<Rightarrow> user_avatar u
                     | None \<Rightarrow> None),
       isOwner = owner_flag req_user review,
       createdAt = review_createdAt review,
       updatedAt = review_updatedAt review,
       isBlinded = False \<rparr>"

text \<open>The callback of the map: one review at its index in the page.\<close>

definition formatReview :: "viewer \<Rightarrow> bool \<Rightarrow> review \<Rightarrow> nat \<Rightarrow> formatted_review" where
  "formatReview req_user isUnlocked review index =
     (if \<not> isUnlocked \<and> index > 0
      then (baseReview req_user review)
             \<lparr> content := placeholder,
               images := [],
               tags := [],
               dollImages := [],
               isBlinded := True \<rparr>
      else baseReview req_user review)"

definition formattedReviews :: "review list \<Rightarrow> viewer \<Rightarrow> bool \<Rightarrow> formatted_review list" where
  "formattedReviews reviews req_user isUnlocked =
     map (\<lambda>(index, review). formatReview req_user isUnlocked review index)
         (enumerate 0 reviews)"

section \<open>Coordinate transformer\<close>

text \<open>
  \<^verbatim>\<open>function tmToWgs84(x, y)\<close>, defined with the same body in the admin routes and in
  the favorites routes. The specification calls it \<open>toGeo\<close>.
\<close>

subsection \<open>JavaScript numbers and values\<close>

text \<open>
  A JavaScript number is \<^verbatim>\<open>NaN\<close>, an infinity or a finite double; a finite double is
  represented by the real number it denotes, and a decimal literal of the source by its
  decimal value. Comparisons of doubles are exact, so \<open>js_lt\<close> and \<open>js_le\<close> compare
  the reals; every comparison with \<^verbatim>\<open>NaN\<close> is false.
\<close>

datatype jsnum = NaN | NegInf | Fin real | PosInf

text \<open>What a caller passes for \<^verbatim>\<open>x\<close> and \<^verbatim>\<open>y\<close>: a database column.\<close>

datatype jsval = JNumber jsnum | JString string | JNull | JUndefined

datatype js_error = Thrown

text \<open>
  What the function calls and the repository does not define:
  \<^item> \<open>round_double\<close>: the rounding of an exact sum to a double (IEEE 754);
  \<^item> \<open>parse_string\<close>: \<^verbatim>\<open>parseFloat\<close> on a string;
  \<^item> \<open>proj4\<close>: the projection library, \<^verbatim>\<open>proj4(from, to, [x, y])\<close>, which returns
    the array \<^verbatim>\<open>[lng, lat]\<close> or throws.
  Every theorem below holds for all three, whatever they are.
\<close>

record runtime =
  round_double :: "real \<Rightarrow> real"
  parse_string :: "string \<Rightarrow> jsnum"
  proj4 :: "string \<Rightarrow> string \<Rightarrow> jsnum \<times> jsnum \<Rightarrow> js_error + jsnum \<times> jsnum"

text \<open>
  \<^verbatim>\<open>parseFloat\<close> converts its argument to a string and parses that: a number comes
  back as it is, \<^verbatim>\<open>null\<close> and \<^verbatim>\<open>undefined\<close> give \<^verbatim>\<open>NaN\<close>.
\<close>

fun parseFloat :: "runtime \<Rightarrow> jsval \<Rightarrow> jsnum" where
  "parseFloat rt (JNumber n) = n"
| "parseFloat rt (JString s) = parse_string rt s"
| "parseFloat rt JNull = NaN"
| "parseFloat rt JUndefined = NaN"

fun isFinite :: "jsnum \<Rightarrow> bool" where
  "isFinite (Fin r) = True"
| "isFinite _ = False"

fun isNaN :: "jsnum \<Rightarrow> bool" where
  "isNaN NaN = True"
| "isNaN _ = False"

fun js_lt :: "jsnum \<Rightarrow> jsnum \<Rightarrow> bool" where
  "js_lt NaN _ = False"
| "js_lt _ NaN = False"
| "js_lt _ NegInf = False"
| "js_lt NegInf _ = True"
| "js_lt PosInf _ = False"
| "js_lt (Fin a) PosInf = True"
| "js_lt (Fin a) (Fin b) = (a < b)"

fun js_le :: "jsnum \<Rightarrow> jsnum \<Rightarrow> bool" where
  "js_le NaN _ = False"
| "js_le _ NaN = False"
| "js_le NegInf _ = True"
| "js_le _ PosInf = True"
| "js_le PosInf _ = False"
| "js_le (Fin a) NegInf = False"
| "js_le (Fin a) (Fin b) = (a \<le> b)"

definition js_gt :: "jsnum \<Rightarrow> jsnum \<Rightarrow> bool" where
  "js_gt a b = js_lt b a"

definition js_ge :: "jsnum \<Rightarrow> jsnum \<Rightarrow> bool" where
  "js_ge a b = js_le b a"

text \<open>
  The operator \<^verbatim>\<open>+\<close> on numbers. The sum of two finite doubles is the rounded exact
  sum; the function adds constants below one only, where the rounded sum of a finite
  double stays finite.
\<close>

fun js_add :: "runtime \<Rightarrow> jsnum \<Rightarrow> jsnum \<Rightarrow> jsnum" where
  "js_add rt NaN _ = NaN"
| "js_add rt _ NaN = NaN"
| "js_add rt PosInf NegInf = NaN"
| "js_add rt NegInf PosInf = NaN"
| "js_add rt PosInf _ = PosInf"
| "js_add rt NegInf _ = NegInf"
| "js_add rt (Fin a) PosInf = PosInf"
| "js_add rt (Fin a) NegInf = NegInf"
| "js_add rt (Fin a) (Fin b) = Fin (round_double rt (a + b))"

text \<open>\<^verbatim>\<open>Math.min\<close> and \<^verbatim>\<open>Math.max\<close> of two numbers: \<^verbatim>\<open>NaN\<close> when either is.\<close>

definition Math_min :: "jsnum \<Rightarrow> jsnum \<Rightarrow> jsnum" where
  "Math_min a b = (if isNaN a \<or> isNaN b then NaN else if js_lt b a then b else a)"

definition Math_max :: "jsnum \<Rightarrow> jsnum \<Rightarrow> jsnum" where
  "Math_max a b = (if isNaN a \<or> isNaN b then NaN else if js_lt a b then b else a)"

subsection \<open>The function\<close>

definition epsg5174 :: string where
  "epsg5174 = ''+proj=tmerc +lat_0=38 +lon_0=127 +k=1 +x_0=200000 +y_0=500000 +ellps=GRS80 +units=m +no_defs''"

definition wgs84 :: string where
  "wgs84 = ''+proj=longlat +datum=WGS84 +no_defs''"

record coord =
  lat :: jsnum
  lng :: jsnum

text \<open>
  The body of the \<^verbatim>\<open>try\<close> block: \<open>Inl\<close> when the call of \<^verbatim>\<open>proj4\<close> (or the
  destructuring of what it returns) throws.
\<close>

definition tmToWgs84_try :: "runtime \<Rightarrow> jsval \<Rightarrow> jsval \<Rightarrow> js_error + coord" where
  "tmToWgs84_try rt x y =
     (let tmX = parseFloat rt x;
          tmY = parseFloat rt y
      in if \<not> isFinite tmX \<or> \<not> isFinite tmY \<or> isNaN tmX \<or> isNaN tmY
         then Inr \<lparr> lat = Fin 37.5665, lng = Fin 126.978 \<rparr>
         else if js_ge tmX (Fin 100) \<and> js_le tmX (Fin 140) \<and>
                 js_ge tmY (Fin 30) \<and> js_le tmY (Fin 45)
         then Inr \<lparr> lat = tmY, lng = tmX \<rparr>
         else if js_lt tmX (Fin 50000) \<or> js_gt tmX (Fin 350000) \<or>
                 js_lt tmY (Fin 0) \<or> js_gt tmY (Fin 700000)
         then Inr \<lparr> lat = Fin 37.5665, lng = Fin 126.978 \<rparr>
         else (case proj4 rt epsg5174 wgs84 (tmX, tmY) of
                 Inl e \<Rightarrow> Inl e
               | Inr (lng', lat') \<Rightarrow>
                   (let correctedLat = js_add rt lat' (Fin 0.002747);
                        correctedLng = js_add rt lng' (Fin 0.00079)
                    in Inr \<lparr> lat = Math_max (Fin 33) (Math_min (Fin 43) correctedLat),
                             lng = Math_max (Fin 124) (Math_min (Fin 132) correctedLng) \<rparr>)))"

text \<open>The whole function: the \<^verbatim>\<open>catch\<close> block returns the centre of Seoul.\<close>

definition tmToWgs84 :: "runtime \<Rightarrow> jsval \<Rightarrow> jsval \<Rightarrow> coord" where
  "tmToWgs84 rt x y =
     (case tmToWgs84_try rt x y of
        Inr c \<Rightarrow> c
      | Inl error \<Rightarrow> \<lparr> lat = Fin 37.5665, lng = Fin 126.978 \<rparr>)"

subsection \<open>Vocabulary of the properties\<close>

definition default_coord :: coord where
  "default_coord = \<lparr> lat = Fin 37.5665, lng = Fin 126.978 \<rparr>"

definition between :: "real \<Rightarrow> real \<Rightarrow> jsnum \<Rightarrow> bool" where
  "between lo hi v = (js_le (Fin lo) v \<and> js_le v (Fin hi))"

section \<open>Unlock ledger\<close>

text \<open>
  The handler of \<^verbatim>\<open>POST /api/reviews/unlock/:storeId\<close>, behind \<^verbatim>\<open>authenticateToken\<close>.
  The database is the two tables the handler reads and writes: the ids of the rows of
  \<^verbatim>\<open>gameBusiness\<close> and the rows of \<^verbatim>\<open>userUnlockedStoreReview\<close>. \<open>storeId\<close> is
  \<^verbatim>\<open>parseInt(req.params.storeId)\<close>, \<open>now\<close> the time the database stamps a new row
  with, and the queries themselves do not fail.
\<close>

record unlock_record =
  unlock_userId :: user_id
  unlock_storeId :: int
  unlockedAt :: timestamp

record database =
  gameBusiness :: "int list"
  userUnlockedStoreReview :: "unlock_record list"

text \<open>\<^verbatim>\<open>prisma.gameBusiness.findUnique({ where: { id } })\<close>\<close>

definition gameBusiness_findUnique :: "database \<Rightarrow> int \<Rightarrow> int option" where
  "gameBusiness_findUnique db sid = find (\<lambda>store. store = sid) (gameBusiness db)"

text \<open>
  \<^verbatim>\<open>prisma.userUnlockedStoreReview.findUnique\<close> on the key
  \<^verbatim>\<open>unique_user_store_review_unlock: { userId, storeId }\<close>
\<close>

definition unlock_findUnique :: "database \<Rightarrow> user_id \<Rightarrow> int \<Rightarrow> unlock_record option" where
  "unlock_findUnique db uid sid =
     find (\<lambda>r. unlock_userId r = uid \<and> unlock_storeId r = sid) (userUnlockedStoreReview db)"

text \<open>
  \<^verbatim>\<open>prisma.userUnlockedStoreReview.create\<close>: the unique key refuses a second row for
  the same user and store, and the call throws.
\<close>

definition unlock_create ::
  "timestamp \<Rightarrow> database \<Rightarrow> user_id \<Rightarrow> int \<Rightarrow> js_error + unlock_record \<times> database" where
  "unlock_create now db uid sid =
     (case unlock_findUnique db uid sid of
        Some r \<Rightarrow> Inl Thrown
      | None \<Rightarrow>
          (let unlock = \<lparr> unlock_userId = uid, unlock_storeId = sid, unlockedAt = now \<rparr>
           in Inr (unlock,
                   db \<lparr> userUnlockedStoreReview := userUnlockedStoreReview db @ [unlock] \<rparr>)))"

text \<open>
  The four answers of the handler:
  \<^item> \<open>NotFound\<close>: status 404, \<^verbatim>\<open>{ success: false, message }\<close>;
  \<^item> \<open>AlreadyUnlocked t\<close>: status 200,
    \<^verbatim>\<open>{ success: true, message, data: { isUnlocked: true, unlockedAt: t } }\<close>, with the
    message that the store was unlocked before;
  \<^item> \<open>NewlyUnlocked t\<close>: status 200, the same shape with the message that the store
    is unlocked now;
  \<^item> \<open>InternalServerError\<close>: status 500, \<^verbatim>\<open>{ error, message }\<close>.
\<close>

datatype unlock_response =
    NotFound
  | AlreadyUnlocked timestamp
  | NewlyUnlocked timestamp
  | InternalServerError



text \<open>
  The handler awaits its three queries one after the other and holds no transaction,
  so other requests run in between. Nothing in the repository writes
  \<^verbatim>\<open>gameBusiness\<close>, and this handler's \<^verbatim>\<open>create\<close> is the only write of
  \<^verbatim>\<open>userUnlockedStoreReview\<close>: what another request does to the two tables is a
  \<^verbatim>\<open>create\<close> for a store it has found, which fails and writes nothing when the key
  is taken.
\<close>

type_synonym concurrent_create = "timestamp \<times> user_id \<times> int"

definition other_create :: "concurrent_create \<Rightarrow> database \<Rightarrow> database" where
  "other_create c db =
     (case c of
        (t, uid, sid) \<Rightarrow>
          (case gameBusiness_findUnique db sid of
             None \<Rightarrow> db
           | Some store \<Rightarrow>
               (case unlock_create t db uid sid of
                  Inl error \<Rightarrow> db
                | Inr (unlock, db') \<Rightarrow> db')))"

definition others :: "concurrent_create list \<Rightarrow> database \<Rightarrow> database" where
  "others cs db = fold other_create cs db"

text \<open>
  One request: \<open>db\<close> is the database at the store lookup, \<open>cs\<^sub>1\<close> what other requests
  create between the store lookup and the ledger lookup, \<open>cs\<^sub>2\<close> what they create
  between the ledger lookup and this request's \<^verbatim>\<open>create\<close>. The result is the answer
  and the database as the request leaves it. A \<^verbatim>\<open>create\<close> that throws is caught and
  answered 500.
\<close>

definition post_unlock ::
  "timestamp \<Rightarrow> concurrent_create list \<Rightarrow> concurrent_create list \<Rightarrow>
   database \<Rightarrow> user_id \<Rightarrow> int \<Rightarrow> unlock_response \<times> database" where
  "post_unlock now cs\<^sub>1 cs\<^sub>2 db userId storeId =
     (case gameBusiness_findUnique db storeId of
        None \<Rightarrow> (NotFound, db)
      | Some store \<Rightarrow>
          (let db\<^sub>1 = others cs\<^sub>1 db
           in case unlock_findUnique db\<^sub>1 userId storeId of
                Some existingUnlock \<Rightarrow> (AlreadyUnlocked (unlockedAt existingUnlock), db\<^sub>1)
              | None \<Rightarrow>
                  (let db\<^sub>2 = others cs\<^sub>2 db\<^sub>1
                   in case unlock_create now db\<^sub>2 userId storeId of
                        Inl error \<Rightarrow> (InternalServerError, db\<^sub>2)
                      | Inr (unlock, db\<^sub>3) \<Rightarrow> (NewlyUnlocked (unlockedAt unlock), db\<^sub>3))))"

text \<open>
  The state the code keeps the two tables in: every ledger row belongs to a store that
  exists. It holds of an empty ledger and every request preserves it (proved below).
\<close>

definition consistent :: "database \<Rightarrow> bool" where
  "consistent db =
     list_all (\<lambda>r. unlock_storeId r \<in> set (gameBusiness db)) (userUnlockedStoreReview db)"

text \<open>The ledger rows of one user and store.\<close>

definition unlock_rows :: "database \<Rightarrow> user_id \<Rightarrow> int \<Rightarrow> unlock_record list" where
  "unlock_rows db uid sid =
     filter (\<lambda>r. unlock_userId r = uid \<and> unlock_storeId r = sid) (userUnlockedStoreReview db)"

section \<open>Sample data\<close>

definition sample_user :: review_user where
  "sample_user = \<lparr> user_id = ''u1'', user_nickname = Some ''kim'', user_avatar = Some ''a.png'' \<rparr>"

definition R0 :: review where
  "R0 = \<lparr> review_id = 10, review_rating = 5, review_content = ''great'',
          review_images = [''i0.png''], review_tags = [''fun''],
          review_dollCount = 2, review_spentAmount = 3000, review_dollImages = [''d0.png''],
          review_user = None, review_userName = Some ''anon'', review_userId = None,
          review_createdAt = 300, review_updatedAt = 301 \<rparr>"

definition R1 :: review where
  "R1 = \<lparr> review_id = 11, review_rating = 4, review_content = ''good'',
          review_images = [''i1.png''], review_tags = [''claw''],
          review_dollCount = 1, review_spentAmount = 5000, review_dollImages = [''d1.png''],
          review_user = Some sample_user, review_userName = None, review_userId = Some ''u1'',
          review_createdAt = 200, review_updatedAt = 202 \<rparr>"

definition R2 :: review where
  "R2 = \<lparr> review_id = 12, review_rating = 1, review_content = ''bad'',
          review_images = [], review_tags = [''hard''],
          review_dollCount = 0, review_spentAmount = 9000, review_dollImages = [],
          review_user = None, review_userName = Some ''lee'', review_userId = None,
          review_createdAt = 100, review_updatedAt = 100 \<rparr>"

text \<open>
  A runtime for the examples: sums are exact, no string is a number, and the projection
  is a linear stand-in for the library around the origin of the grid.
\<close>

definition sample_proj4 ::
  "string \<Rightarrow> string \<Rightarrow> jsnum \<times> jsnum \<Rightarrow> js_error + jsnum \<times> jsnum" where
  "sample_proj4 src dst p =
     (case p of
        (Fin x, Fin y) \<Rightarrow>
          if src = epsg5174 \<and> dst = wgs84
          then Inr (Fin (127 + (x - 200000) / 100000), Fin (38 + (y - 500000) / 100000))
          else Inl Thrown
      | _ \<Rightarrow> Inl Thrown)"

definition sample_runtime :: runtime where
  "sample_runtime =
     \<lparr> round_double = (\<lambda>r. r), parse_string = (\<lambda>s. NaN), proj4 = sample_proj4 \<rparr>"

definition failing_runtime :: runtime where
  "failing_runtime = sample_runtime \<lparr> proj4 := (\<lambda>src dst p. Inl Thrown) \<rparr>"


definition fresh_db :: database where
  "fresh_db = \<lparr> gameBusiness = [3, 7], userUnlockedStoreReview = [] \<rparr>"

text \<open>A runtime whose projection answers outside the Korea box.\<close>

definition offgrid_runtime :: runtime where
  "offgrid_runtime = sample_runtime \<lparr> proj4 := (\<lambda>src dst p. Inr (Fin 123, Fin 42.999)) \<rparr>"

section \<open>Properties of the gate\<close>

lemma length_formattedReviews:
  "length (formattedReviews reviews req_user isUnlocked) = length reviews"
  by (simp add: formattedReviews_def)

lemma nth_formattedReviews:
  "i < length reviews \<Longrightarrow>
   formattedReviews reviews req_user isUnlocked ! i =
   formatReview req_user isUnlocked (reviews ! i) i"
  by (simp add: formattedReviews_def nth_enumerate_eq)

lemma id_formatReview: "id' (formatReview req_user isUnlocked review index) = review_id review"
  by (simp add: formatReview_def baseReview_def)

text \<open>
  C9. The output has the length of the input, and the output at each position has the
  id of the input review at that position: nothing is dropped, added or reordered. The
  empty page gives the empty list.
\<close>

theorem gate_preserves_length_and_ids:
  "length (formattedReviews reviews req_user isUnlocked) = length reviews \<and>
   map id' (formattedReviews reviews req_user isUnlocked) = map review_id reviews \<and>
   formattedReviews [] req_user isUnlocked = []"
proof -
  have "map id' (formattedReviews reviews req_user isUnlocked) = map review_id reviews"
    by (rule nth_equalityI)
       (simp_all add: length_formattedReviews nth_formattedReviews id_formatReview)
  moreover have "formattedReviews [] req_user isUnlocked = []"
    by (simp add: formattedReviews_def)
  ultimately show ?thesis
    by (simp add: length_formattedReviews)
qed

lemma formatReview_unlocked [simp]:
  "formatReview req_user True review index = baseReview req_user review"
  by (simp add: formatReview_def)

lemma formatReview_first [simp]:
  "formatReview req_user isUnlocked review 0 = baseReview req_user review"
  by (simp add: formatReview_def)

lemma formatReview_blinded:
  "0 < index \<Longrightarrow>
   formatReview req_user False review index =
   (baseReview req_user review)
     \<lparr> content := placeholder, images := [], tags := [], dollImages := [],
       isBlinded := True \<rparr>"
  by (simp add: formatReview_def)

text \<open>
  C2. With \<open>isUnlocked = False\<close>, the review at position 0 of a non-empty page comes out
  unredacted (it is the base object: content, images, tags and dollImages of the input,
  \<open>isBlinded = False\<close>), and the review at every position \<open>\<ge> 1\<close> comes out blinded:
  content is the placeholder, images, tags and dollImages are empty, \<open>isBlinded = True\<close>,
  while the rating and the author's display name are those of the input.
\<close>

theorem gate_locked:
  assumes "i < length reviews"
  shows "let out = formattedReviews reviews req_user False ! i; r = reviews ! i in
         if i = 0
         then out = baseReview req_user r \<and>
              content out = review_content r \<and> images out = review_images r \<and>
              tags out = review_tags r \<and> dollImages out = review_dollImages r \<and>
              rating out = review_rating r \<and> isBlinded out = False
         else content out = placeholder \<and> images out = [] \<and> tags out = [] \<and>
              dollImages out = [] \<and> isBlinded out = True \<and>
              rating out = review_rating r \<and>
              userName out = (case review_user r of
                                Some u \<Rightarrow> user_nickname u
                              | None \<Rightarrow> review_userName r)"
proof (cases "i = 0")
  case True
  with assms show ?thesis
    by (simp add: nth_formattedReviews baseReview_def)
next
  case False
  then have "0 < i" by simp
  with assms show ?thesis
    by (simp add: nth_formattedReviews formatReview_blinded baseReview_def)
qed

theorem gate_locked_witness:
  "(1::nat) < length [R0, R1, R2] \<and>
   content (formattedReviews [R0, R1, R2] Anonymous False ! 1) = placeholder \<and>
   images (formattedReviews [R0, R1, R2] Anonymous False ! 1) = [] \<and>
   isBlinded (formattedReviews [R0, R1, R2] Anonymous False ! 1) \<and>
   rating (formattedReviews [R0, R1, R2] Anonymous False ! 1) = 4 \<and>
   userName (formattedReviews [R0, R1, R2] Anonymous False ! 1) = Some ''kim''"
proof -
  have len: "(1::nat) < length [R0, R1, R2]" by simp
  have r: "[R0, R1, R2] ! 1 = R1" by simp
  from gate_locked [OF len, of Anonymous] show ?thesis
    unfolding Let_def r by (simp add: R1_def sample_user_def)
qed

text \<open>
  C3. With \<open>isUnlocked = True\<close> every review comes out as its base object: content,
  images, tags and dollImages are those of the input, and \<open>isBlinded\<close> is \<open>False\<close> on
  every output review.
\<close>

theorem gate_unlocked:
  "formattedReviews reviews req_user True = map (baseReview req_user) reviews \<and>
   map content (formattedReviews reviews req_user True) = map review_content reviews \<and>
   map images (formattedReviews reviews req_user True) = map review_images reviews \<and>
   map tags (formattedReviews reviews req_user True) = map review_tags reviews \<and>
   map dollImages (formattedReviews reviews req_user True) = map review_dollImages reviews \<and>
   map isBlinded (formattedReviews reviews req_user True) = replicate (length reviews) False"
proof -
  have base: "formattedReviews reviews req_user True = map (baseReview req_user) reviews"
    by (rule nth_equalityI) (simp_all add: length_formattedReviews nth_formattedReviews)
  have "map isBlinded (map (baseReview req_user) reviews) = replicate (length reviews) False"
    by (rule nth_equalityI) (simp_all add: baseReview_def)
  then show ?thesis
    unfolding base by (simp add: baseReview_def comp_def)
qed

text \<open>
  C4, as the code has it. Every output review carries \<open>isOwner\<close>, the value of
  \<^verbatim>\<open>req.user && review.userId === req.user.id\<close>: for an authenticated viewer the
  boolean that says whether the viewer's id is the review's \<open>userId\<close>, for an anonymous
  viewer the absent \<^verbatim>\<open>req.user\<close> itself, which is falsy and not a boolean. So
  \<open>isOwner\<close> is true exactly when the viewer is authenticated and wrote the review.
  The value does not depend on \<open>isUnlocked\<close> and blinding leaves it alone.
\<close>

theorem gate_isOwner:
  assumes "i < length reviews"
  shows "isOwner (formattedReviews reviews req_user isUnlocked ! i) =
           (case req_user of
              Anonymous \<Rightarrow> None
            | Authenticated uid \<Rightarrow> Some (review_userId (reviews ! i) = Some uid)) \<and>
         (isOwner (formattedReviews reviews req_user isUnlocked ! i) = Some True \<longleftrightarrow>
            (\<exists>uid. req_user = Authenticated uid \<and> review_userId (reviews ! i) = Some uid)) \<and>
         isOwner (formattedReviews reviews req_user True ! i) =
           isOwner (formattedReviews reviews req_user False ! i) \<and>
         isOwner (formattedReviews reviews req_user isUnlocked ! i) =
           isOwner (baseReview req_user (reviews ! i))"
proof -
  have flag: "isOwner (formatReview req_user b (reviews ! i) i) =
              owner_flag req_user (reviews ! i)" for b
    by (simp add: formatReview_def baseReview_def)
  have val: "owner_flag req_user (reviews ! i) =
        (case req_user of
           Anonymous \<Rightarrow> None
         | Authenticated uid \<Rightarrow> Some (review_userId (reviews ! i) = Some uid))"
    by (simp add: owner_flag_def)
  have "owner_flag req_user (reviews ! i) = Some True \<longleftrightarrow>
        (\<exists>uid. req_user = Authenticated uid \<and> review_userId (reviews ! i) = Some uid)"
    by (cases req_user) (simp_all add: owner_flag_def)
  with assms flag val show ?thesis
    by (simp add: nth_formattedReviews baseReview_def)
qed

theorem gate_isOwner_witness:
  "(1::nat) < length [R0, R1, R2] \<and>
   isBlinded (formattedReviews [R0, R1, R2] (Authenticated ''u1'') False ! 1) \<and>
   isOwner (formattedReviews [R0, R1, R2] (Authenticated ''u1'') False ! 1) = Some True \<and>
   rating (formattedReviews [R0, R1, R2] (Authenticated ''u1'') False ! 1) = 4 \<and>
   isOwner (formattedReviews [R0, R1, R2] (Authenticated ''u1'') False ! 2) = Some False"
proof -
  have r1: "review_userId ([R0, R1, R2] ! 1) = Some ''u1''"
    by (simp add: R1_def)
  have r2: "review_userId ([R0, R1, R2] ! 2) = None"
    by (simp add: R2_def)
  from gate_isOwner [of 1 "[R0, R1, R2]" "Authenticated ''u1''" False] r1
  have own: "isOwner (formattedReviews [R0, R1, R2] (Authenticated ''u1'') False ! 1) = Some True"
    by simp
  from gate_isOwner [of 2 "[R0, R1, R2]" "Authenticated ''u1''" False] r2
  have other: "isOwner (formattedReviews [R0, R1, R2] (Authenticated ''u1'') False ! 2) =
               Some False"
    by simp
  from own other show ?thesis
    by (simp add: nth_formattedReviews formatReview_blinded baseReview_def R1_def)
qed

text \<open>
  An anonymous viewer: \<open>isOwner\<close> of the first output review is neither \<open>true\<close> nor
  \<open>false\<close>.
\<close>

theorem gate_isOwner_counterexample:
  "isOwner (formattedReviews [R0, R1, R2] Anonymous False ! 0) = None \<and>
   isOwner (formattedReviews [R0, R1, R2] Anonymous False ! 0) \<noteq> Some False \<and>
   isOwner (formattedReviews [R0, R1, R2] Anonymous False ! 0) \<noteq> Some True"
  by (simp add: nth_formattedReviews baseReview_def owner_flag_def)

text \<open>
  C10. In a blinded output review the fields id, dollCount, spentAmount, userName,
  userAvatar, createdAt and updatedAt are those the base object takes from the input
  review; the blind projection replaces content, images, tags and dollImages only (and
  sets \<open>isBlinded\<close>): putting those back gives the base object.
\<close>

theorem gate_blinded_frame:
  assumes "i < length reviews" and "0 < i"
  shows "let out = formattedReviews reviews req_user False ! i; r = reviews ! i;
             b = baseReview req_user r in
         isBlinded out \<and>
         id' out = review_id r \<and>
         dollCount out = review_dollCount r \<and>
         spentAmount out = review_spentAmount r \<and>
         userName out = (case review_user r of
                           Some u \<Rightarrow> user_nickname u
                         | None \<Rightarrow> review_userName r) \<and>
         userAvatar out = (case review_user r of
                             Some u \<Rightarrow> user_avatar u
                           | None \<Rightarrow> None) \<and>
         createdAt out = review_createdAt r \<and>
         updatedAt out = review_updatedAt r \<and>
         out \<lparr> content := content b, images := images b, tags := tags b,
               dollImages := dollImages b, isBlinded := False \<rparr> = b"
  using assms
  by (simp add: nth_formattedReviews formatReview_blinded baseReview_def)

theorem gate_blinded_frame_witness:
  "(2::nat) < length [R0, R1, R2] \<and> (0::nat) < 2 \<and>
   isBlinded (formattedReviews [R0, R1, R2] Anonymous False ! 2) \<and>
   id' (formattedReviews [R0, R1, R2] Anonymous False ! 2) = 12 \<and>
   dollCount (formattedReviews [R0, R1, R2] Anonymous False ! 2) = 0 \<and>
   spentAmount (formattedReviews [R0, R1, R2] Anonymous False ! 2) = 9000 \<and>
   userName (formattedReviews [R0, R1, R2] Anonymous False ! 2) = Some ''lee'' \<and>
   userAvatar (formattedReviews [R0, R1, R2] Anonymous False ! 2) = None \<and>
   createdAt (formattedReviews [R0, R1, R2] Anonymous False ! 2) = 100 \<and>
   updatedAt (formattedReviews [R0, R1, R2] Anonymous False ! 2) = 100"
proof -
  have len: "(2::nat) < length [R0, R1, R2]" and pos: "(0::nat) < 2" by simp_all
  have r: "[R0, R1, R2] ! 2 = R2" by simp
  from gate_blinded_frame [OF len pos, of Anonymous] show ?thesis
    unfolding Let_def r by (simp add: R2_def)
qed

section \<open>Properties of the coordinate transformer\<close>

lemma Math_max_min_between:
  "lo \<le> hi \<Longrightarrow> \<not> isNaN v \<Longrightarrow> between lo hi (Math_max (Fin lo) (Math_min (Fin hi) v))"
  by (cases v) (auto simp: between_def Math_max_def Math_min_def)

lemma js_add_not_NaN: "\<not> isNaN v \<Longrightarrow> \<not> isNaN (js_add rt v (Fin c))"
  by (cases v) auto

lemma between_default:
  "between 33 43 (lat default_coord) \<and> between 124 132 (lng default_coord)"
  by (simp add: between_def default_coord_def)

text \<open>The four ways through the function, on the parsed values.\<close>

lemma tmToWgs84_nonfinite:
  "\<not> isFinite (parseFloat rt x) \<or> \<not> isFinite (parseFloat rt y) \<Longrightarrow>
   tmToWgs84 rt x y = default_coord"
  by (auto simp add: tmToWgs84_def tmToWgs84_try_def default_coord_def Let_def)

lemma tmToWgs84_geographic:
  "parseFloat rt x = Fin a \<Longrightarrow> parseFloat rt y = Fin b \<Longrightarrow>
   100 \<le> a \<and> a \<le> 140 \<and> 30 \<le> b \<and> b \<le> 45 \<Longrightarrow>
   tmToWgs84 rt x y = \<lparr> lat = Fin b, lng = Fin a \<rparr>"
  by (simp add: tmToWgs84_def tmToWgs84_try_def js_ge_def)

lemma tmToWgs84_outside:
  "parseFloat rt x = Fin a \<Longrightarrow> parseFloat rt y = Fin b \<Longrightarrow>
   \<not> (100 \<le> a \<and> a \<le> 140 \<and> 30 \<le> b \<and> b \<le> 45) \<Longrightarrow>
   a < 50000 \<or> 350000 < a \<or> b < 0 \<or> 700000 < b \<Longrightarrow>
   tmToWgs84 rt x y = default_coord"
  by (auto simp add: tmToWgs84_def tmToWgs84_try_def default_coord_def js_ge_def js_gt_def Let_def)

lemma tmToWgs84_inside:
  "parseFloat rt x = Fin a \<Longrightarrow> parseFloat rt y = Fin b \<Longrightarrow>
   50000 \<le> a \<Longrightarrow> a \<le> 350000 \<Longrightarrow> 0 \<le> b \<Longrightarrow> b \<le> 700000 \<Longrightarrow>
   tmToWgs84 rt x y =
     (case proj4 rt epsg5174 wgs84 (Fin a, Fin b) of
        Inl e \<Rightarrow> default_coord
      | Inr (lng', lat') \<Rightarrow>
          \<lparr> lat = Math_max (Fin 33) (Math_min (Fin 43) (js_add rt lat' (Fin 0.002747))),
            lng = Math_max (Fin 124) (Math_min (Fin 132) (js_add rt lng' (Fin 0.00079))) \<rparr>)"
  by (auto simp add: tmToWgs84_def tmToWgs84_try_def default_coord_def js_ge_def js_gt_def Let_def
           split: sum.splits)

lemma tmToWgs84_caught:
  "tmToWgs84_try rt x y = Inl e \<Longrightarrow> tmToWgs84 rt x y = default_coord"
  by (simp add: tmToWgs84_def default_coord_def)

lemma sample_proj4_planar:
  "proj4 sample_runtime epsg5174 wgs84 (Fin 198000, Fin 450000) = Inr (Fin 126.98, Fin 37.5)"
  by (simp add: sample_runtime_def sample_proj4_def)

text \<open>
  C1, as the code has it. For finite parsed inputs the result lies in the Korea box,
  latitude in \<open>[33, 43]\<close> and longitude in \<open>[124, 132]\<close>, unless the input is in the
  geographic pass-through range: there the input comes back as it is, so the result lies
  in \<open>[30, 45]\<close> by \<open>[100, 140]\<close>. The projection library is assumed to return numbers
  (not \<^verbatim>\<open>NaN\<close>) when it returns.
\<close>

theorem tmToWgs84_range:
  assumes "parseFloat rt x = Fin a" and "parseFloat rt y = Fin b"
    and "\<And>lng' lat'. proj4 rt epsg5174 wgs84 (Fin a, Fin b) = Inr (lng', lat') \<Longrightarrow>
           \<not> isNaN lng' \<and> \<not> isNaN lat'"
  shows "if 100 \<le> a \<and> a \<le> 140 \<and> 30 \<le> b \<and> b \<le> 45
         then between 30 45 (lat (tmToWgs84 rt x y)) \<and> between 100 140 (lng (tmToWgs84 rt x y))
         else between 33 43 (lat (tmToWgs84 rt x y)) \<and> between 124 132 (lng (tmToWgs84 rt x y))"
proof (cases "100 \<le> a \<and> a \<le> 140 \<and> 30 \<le> b \<and> b \<le> 45")
  case True
  with assms(1,2) have "tmToWgs84 rt x y = \<lparr> lat = Fin b, lng = Fin a \<rparr>"
    by (rule tmToWgs84_geographic)
  with True show ?thesis by (simp add: between_def)
next
  case geo: False
  show ?thesis
  proof (cases "a < 50000 \<or> 350000 < a \<or> b < 0 \<or> 700000 < b")
    case True
    with assms(1,2) geo have "tmToWgs84 rt x y = default_coord"
      by (rule tmToWgs84_outside)
    with geo between_default show ?thesis by auto
  next
    case False
    then have bounds: "50000 \<le> a" "a \<le> 350000" "0 \<le> b" "b \<le> 700000" by simp_all
    note eq = tmToWgs84_inside [OF assms(1,2) bounds]
    show ?thesis
    proof (cases "proj4 rt epsg5174 wgs84 (Fin a, Fin b)")
      case (Inl e)
      with eq have "tmToWgs84 rt x y = default_coord" by simp
      with geo between_default show ?thesis by auto
    next
      case (Inr p)
      obtain plng plat where p: "p = (plng, plat)" by (cases p)
      from assms(3) Inr p have nn: "\<not> isNaN plng" "\<not> isNaN plat" by simp_all
      from eq Inr p
      have "tmToWgs84 rt x y =
           \<lparr> lat = Math_max (Fin 33) (Math_min (Fin 43) (js_add rt plat (Fin 0.002747))),
             lng = Math_max (Fin 124) (Math_min (Fin 132) (js_add rt plng (Fin 0.00079))) \<rparr>"
        by simp
      with geo nn show ?thesis
        by (auto simp add: Math_max_min_between js_add_not_NaN)
    qed
  qed
qed

theorem tmToWgs84_range_witness:
  "parseFloat sample_runtime (JNumber (Fin 198000)) = Fin 198000 \<and>
   parseFloat sample_runtime (JNumber (Fin 450000)) = Fin 450000 \<and>
   proj4 sample_runtime epsg5174 wgs84 (Fin 198000, Fin 450000) = Inr (Fin 126.98, Fin 37.5) \<and>
   between 33 43 (lat (tmToWgs84 sample_runtime (JNumber (Fin 198000)) (JNumber (Fin 450000)))) \<and>
   between 124 132 (lng (tmToWgs84 sample_runtime (JNumber (Fin 198000)) (JNumber (Fin 450000))))"
proof -
  have px: "parseFloat sample_runtime (JNumber (Fin 198000)) = Fin 198000"
    and py: "parseFloat sample_runtime (JNumber (Fin 450000)) = Fin 450000"
    by simp_all
  have num: "\<not> isNaN lng' \<and> \<not> isNaN lat'"
    if "proj4 sample_runtime epsg5174 wgs84 (Fin 198000, Fin 450000) = Inr (lng', lat')"
    for lng' lat'
    using that by (auto simp add: sample_proj4_planar)
  from tmToWgs84_range [OF px py num] sample_proj4_planar show ?thesis
    by simp
qed

text \<open>
  The pass-through corner \<open>x = 100\<close>, \<open>y = 30\<close>: two finite inputs, and the result is
  outside the Korea box in both coordinates.
\<close>

theorem tmToWgs84_range_counterexample:
  "tmToWgs84 sample_runtime (JNumber (Fin 100)) (JNumber (Fin 30)) =
     \<lparr> lat = Fin 30, lng = Fin 100 \<rparr> \<and>
   \<not> between 33 43 (lat (tmToWgs84 sample_runtime (JNumber (Fin 100)) (JNumber (Fin 30)))) \<and>
   \<not> between 124 132 (lng (tmToWgs84 sample_runtime (JNumber (Fin 100)) (JNumber (Fin 30))))"
  by (simp add: tmToWgs84_def tmToWgs84_try_def js_ge_def between_def)

text \<open>
  C5. When the parsed \<open>x\<close> is in \<open>[100, 140]\<close> and the parsed \<open>y\<close> in \<open>[30, 45]\<close>, the
  result is \<open>{lat: y, lng: x}\<close> itself: no correction and no clamping. A number parses
  to itself, so this covers \<open>toGeo(127.0, 37.5)\<close>.
\<close>

theorem tmToWgs84_passthrough:
  assumes "parseFloat rt x = Fin a" and "parseFloat rt y = Fin b"
    and "100 \<le> a" and "a \<le> 140" and "30 \<le> b" and "b \<le> 45"
  shows "tmToWgs84 rt x y = \<lparr> lat = Fin b, lng = Fin a \<rparr>"
  using assms by (simp add: tmToWgs84_geographic)

theorem tmToWgs84_passthrough_witness:
  "tmToWgs84 sample_runtime (JNumber (Fin 127.0)) (JNumber (Fin 37.5)) =
     \<lparr> lat = Fin 37.5, lng = Fin 127.0 \<rparr>"
  by (rule tmToWgs84_passthrough) simp_all

text \<open>
  C6. The function returns a coordinate on every input, and it is the default
  \<open>{lat: 37.5665, lng: 126.978}\<close> when a parsed value is not finite, when the parsed
  values are outside the planar bounds and not in the pass-through range, when the
  projection throws, and whenever anything in the \<^verbatim>\<open>try\<close> block throws.
\<close>

theorem tmToWgs84_never_raises:
  "(\<not> isFinite (parseFloat rt x) \<or> \<not> isFinite (parseFloat rt y) \<longrightarrow>
      tmToWgs84 rt x y = default_coord) \<and>
   (parseFloat rt x = Fin a \<and> parseFloat rt y = Fin b \<and>
    \<not> (100 \<le> a \<and> a \<le> 140 \<and> 30 \<le> b \<and> b \<le> 45) \<and>
    \<not> (50000 \<le> a \<and> a \<le> 350000 \<and> 0 \<le> b \<and> b \<le> 700000) \<longrightarrow>
      tmToWgs84 rt x y = default_coord) \<and>
   (parseFloat rt x = Fin a \<and> parseFloat rt y = Fin b \<and>
    \<not> (100 \<le> a \<and> a \<le> 140 \<and> 30 \<le> b \<and> b \<le> 45) \<and>
    proj4 rt epsg5174 wgs84 (Fin a, Fin b) = Inl e \<longrightarrow>
      tmToWgs84 rt x y = default_coord) \<and>
   (tmToWgs84_try rt x y = Inl e \<longrightarrow> tmToWgs84 rt x y = default_coord)"
proof (intro conjI impI)
  assume "\<not> isFinite (parseFloat rt x) \<or> \<not> isFinite (parseFloat rt y)"
  then show "tmToWgs84 rt x y = default_coord"
    by (rule tmToWgs84_nonfinite)
next
  assume h: "parseFloat rt x = Fin a \<and> parseFloat rt y = Fin b \<and>
    \<not> (100 \<le> a \<and> a \<le> 140 \<and> 30 \<le> b \<and> b \<le> 45) \<and>
    \<not> (50000 \<le> a \<and> a \<le> 350000 \<and> 0 \<le> b \<and> b \<le> 700000)"
  then have "a < 50000 \<or> 350000 < a \<or> b < 0 \<or> 700000 < b" by auto
  with h show "tmToWgs84 rt x y = default_coord"
    by (intro tmToWgs84_outside [of rt x a y b]) simp_all
next
  assume h: "parseFloat rt x = Fin a \<and> parseFloat rt y = Fin b \<and>
    \<not> (100 \<le> a \<and> a \<le> 140 \<and> 30 \<le> b \<and> b \<le> 45) \<and>
    proj4 rt epsg5174 wgs84 (Fin a, Fin b) = Inl e"
  show "tmToWgs84 rt x y = default_coord"
  proof (cases "a < 50000 \<or> 350000 < a \<or> b < 0 \<or> 700000 < b")
    case True
    with h show ?thesis
      by (intro tmToWgs84_outside [of rt x a y b]) simp_all
  next
    case False
    then have bounds: "50000 \<le> a" "a \<le> 350000" "0 \<le> b" "b \<le> 700000" by simp_all
    from h have px: "parseFloat rt x = Fin a" and py: "parseFloat rt y = Fin b" by simp_all
    from tmToWgs84_inside [OF px py bounds] h show ?thesis by simp
  qed
next
  assume "tmToWgs84_try rt x y = Inl e"
  then show "tmToWgs84 rt x y = default_coord"
    by (rule tmToWgs84_caught)
qed

theorem tmToWgs84_never_raises_witness:
  "tmToWgs84 sample_runtime (JNumber NaN) (JNumber (Fin 100)) = default_coord \<and>
   tmToWgs84 sample_runtime (JNumber (Fin 1)) (JNumber (Fin 1)) = default_coord \<and>
   tmToWgs84_try failing_runtime (JNumber (Fin 198000)) (JNumber (Fin 450000)) = Inl Thrown \<and>
   tmToWgs84 failing_runtime (JNumber (Fin 198000)) (JNumber (Fin 450000)) = default_coord \<and>
   tmToWgs84 sample_runtime (JNumber PosInf) JNull = default_coord"
proof -
  have thrown: "proj4 failing_runtime epsg5174 wgs84 (Fin 198000, Fin 450000) = Inl Thrown"
    by (simp add: failing_runtime_def)
  have try_thrown:
    "tmToWgs84_try failing_runtime (JNumber (Fin 198000)) (JNumber (Fin 450000)) = Inl Thrown"
    by (simp add: tmToWgs84_try_def thrown js_ge_def js_gt_def)
  from tmToWgs84_never_raises [of sample_runtime "JNumber NaN" "JNumber (Fin 100)" 0 0 Thrown]
  have 1: "tmToWgs84 sample_runtime (JNumber NaN) (JNumber (Fin 100)) = default_coord"
    by simp
  from tmToWgs84_never_raises [of sample_runtime "JNumber (Fin 1)" "JNumber (Fin 1)" 1 1 Thrown]
  have 2: "tmToWgs84 sample_runtime (JNumber (Fin 1)) (JNumber (Fin 1)) = default_coord"
    by simp
  from tmToWgs84_never_raises
         [of failing_runtime "JNumber (Fin 198000)" "JNumber (Fin 450000)" 198000 450000 Thrown]
       thrown
  have 3: "tmToWgs84 failing_runtime (JNumber (Fin 198000)) (JNumber (Fin 450000)) =
           default_coord"
    by simp
  from tmToWgs84_never_raises [of sample_runtime "JNumber PosInf" JNull 0 0 Thrown]
  have 4: "tmToWgs84 sample_runtime (JNumber PosInf) JNull = default_coord"
    by simp
  from 1 2 3 4 try_thrown show ?thesis by simp
qed

text \<open>
  C7. On the planar branch (finite parsed values inside the planar bounds, which the
  pass-through range does not meet) the function calls the projection from EPSG:5174 to
  WGS84 and, when the library returns \<open>[lng, lat]\<close>, returns the clamp of
  \<open>lat + 0.002747\<close> to \<open>[33, 43]\<close> and of \<open>lng + 0.00079\<close> to \<open>[124, 132]\<close>: for
  a finite projected value the sum (as the runtime rounds it) when it lies in the
  interval, the nearer end of the interval otherwise. An infinite projected value is
  clamped to its end of the interval, and \<^verbatim>\<open>NaN\<close> stays \<^verbatim>\<open>NaN\<close>.
\<close>

theorem tmToWgs84_planar:
  assumes "parseFloat rt x = Fin a" and "parseFloat rt y = Fin b"
    and "50000 \<le> a" and "a \<le> 350000" and "0 \<le> b" and "b \<le> 700000"
    and "proj4 rt epsg5174 wgs84 (Fin a, Fin b) = Inr (lng', lat')"
  shows "tmToWgs84 rt x y =
           \<lparr> lat = (case lat' of
                      Fin p \<Rightarrow> Fin (max 33 (min 43 (round_double rt (p + 0.002747))))
                    | PosInf \<Rightarrow> Fin 43
                    | NegInf \<Rightarrow> Fin 33
                    | NaN \<Rightarrow> NaN),
             lng = (case lng' of
                      Fin q \<Rightarrow> Fin (max 124 (min 132 (round_double rt (q + 0.00079))))
                    | PosInf \<Rightarrow> Fin 132
                    | NegInf \<Rightarrow> Fin 124
                    | NaN \<Rightarrow> NaN) \<rparr>"
proof -
  have lat_clamp: "Math_max (Fin 33) (Math_min (Fin 43) (js_add rt v (Fin c))) =
        (case v of
           Fin p \<Rightarrow> Fin (max 33 (min 43 (round_double rt (p + c))))
         | PosInf \<Rightarrow> Fin 43
         | NegInf \<Rightarrow> Fin 33
         | NaN \<Rightarrow> NaN)" for v c
    by (cases v) (auto simp add: Math_max_def Math_min_def max_def min_def)
  have lng_clamp: "Math_max (Fin 124) (Math_min (Fin 132) (js_add rt v (Fin c))) =
        (case v of
           Fin q \<Rightarrow> Fin (max 124 (min 132 (round_double rt (q + c))))
         | PosInf \<Rightarrow> Fin 132
         | NegInf \<Rightarrow> Fin 124
         | NaN \<Rightarrow> NaN)" for v c
    by (cases v) (auto simp add: Math_max_def Math_min_def max_def min_def)
  from assms have "tmToWgs84 rt x y =
           \<lparr> lat = Math_max (Fin 33) (Math_min (Fin 43) (js_add rt lat' (Fin 0.002747))),
             lng = Math_max (Fin 124) (Math_min (Fin 132) (js_add rt lng' (Fin 0.00079))) \<rparr>"
    by (simp add: tmToWgs84_inside)
  then show ?thesis
    by (simp only: lat_clamp lng_clamp)
qed

theorem tmToWgs84_planar_witness:
  "proj4 sample_runtime epsg5174 wgs84 (Fin 198000, Fin 450000) = Inr (Fin 126.98, Fin 37.5) \<and>
   tmToWgs84 sample_runtime (JNumber (Fin 198000)) (JNumber (Fin 450000)) =
     \<lparr> lat = Fin 37.502747, lng = Fin 126.98079 \<rparr> \<and>
   proj4 offgrid_runtime epsg5174 wgs84 (Fin 198000, Fin 450000) = Inr (Fin 123, Fin 42.999) \<and>
   tmToWgs84 offgrid_runtime (JNumber (Fin 198000)) (JNumber (Fin 450000)) =
     \<lparr> lat = Fin 43, lng = Fin 124 \<rparr>"
proof -
  have px: "parseFloat rt (JNumber (Fin 198000)) = Fin 198000"
    and py: "parseFloat rt (JNumber (Fin 450000)) = Fin 450000" for rt
    by simp_all
  have exact: "round_double sample_runtime r = r" "round_double offgrid_runtime r = r" for r
    by (simp_all add: sample_runtime_def offgrid_runtime_def)
  have off: "proj4 offgrid_runtime epsg5174 wgs84 (Fin 198000, Fin 450000) =
             Inr (Fin 123, Fin 42.999)"
    by (simp add: offgrid_runtime_def)
  from tmToWgs84_planar [OF px py _ _ _ _ sample_proj4_planar]
  have inside: "tmToWgs84 sample_runtime (JNumber (Fin 198000)) (JNumber (Fin 450000)) =
                  \<lparr> lat = Fin 37.502747, lng = Fin 126.98079 \<rparr>"
    by (simp add: exact)
  from tmToWgs84_planar [OF px py _ _ _ _ off]
  have clamped: "tmToWgs84 offgrid_runtime (JNumber (Fin 198000)) (JNumber (Fin 450000)) =
                   \<lparr> lat = Fin 43, lng = Fin 124 \<rparr>"
    by (simp add: exact)
  from inside clamped off sample_proj4_planar show ?thesis
    by simp
qed

section \<open>Properties of the unlock ledger\<close>

lemma gameBusiness_findUnique_eq:
  "gameBusiness_findUnique db sid = (if sid \<in> set (gameBusiness db) then Some sid else None)"
proof -
  have "find (\<lambda>store. store = sid) xs = (if sid \<in> set xs then Some sid else None)" for xs
    by (induction xs) auto
  then show ?thesis
    by (simp add: gameBusiness_findUnique_def)
qed


text \<open>What one \<^verbatim>\<open>create\<close> of another request does.\<close>

lemma other_create_cases:
  "other_create (t, uid, sid) db = db \<or>
   (sid \<in> set (gameBusiness db) \<and> unlock_findUnique db uid sid = None \<and>
    other_create (t, uid, sid) db =
      db \<lparr> userUnlockedStoreReview := userUnlockedStoreReview db @
              [\<lparr> unlock_userId = uid, unlock_storeId = sid, unlockedAt = t \<rparr>] \<rparr>)"
  by (simp add: other_create_def gameBusiness_findUnique_eq unlock_create_def Let_def
           split: option.splits)

lemma other_create_stores [simp]: "gameBusiness (other_create c db) = gameBusiness db"
proof -
  obtain t uid sid where c: "c = (t, uid, sid)" by (cases c)
  from other_create_cases [of t uid sid db] show ?thesis
    unfolding c by auto
qed



lemma other_create_consistent:
  assumes "consistent db"
  shows "consistent (other_create c db)"
proof -
  obtain t uid sid where c: "c = (t, uid, sid)" by (cases c)
  from other_create_cases [of t uid sid db] assms show ?thesis
    unfolding c by (auto simp add: consistent_def)
qed

text \<open>The same for any number of them: induction on the list, the database generalised.\<close>

lemma others_stores [simp]: "gameBusiness (others cs db) = gameBusiness db"
  unfolding others_def by (induction cs arbitrary: db) simp_all



lemma others_consistent: "consistent db \<Longrightarrow> consistent (others cs db)"
  unfolding others_def by (induction cs arbitrary: db) (simp_all add: other_create_consistent)

text \<open>
  Consistency is the code's own invariant: an empty ledger has it, and a request leaves
  it in place whatever the other requests create meanwhile.
\<close>

lemma consistent_empty_ledger:
  "consistent \<lparr> gameBusiness = stores, userUnlockedStoreReview = [] \<rparr>"
  by (simp add: consistent_def)

lemma post_unlock_consistent:
  assumes "consistent db"
  shows "consistent (snd (post_unlock now cs\<^sub>1 cs\<^sub>2 db userId storeId))"
proof (cases "storeId \<in> set (gameBusiness db)")
  case False
  with assms show ?thesis
    by (simp add: post_unlock_def gameBusiness_findUnique_eq)
next
  case True
  have c2: "consistent (others cs\<^sub>2 (others cs\<^sub>1 db))"
    using assms by (simp add: others_consistent)
  have "consistent (db' \<lparr> userUnlockedStoreReview := userUnlockedStoreReview db' @
          [\<lparr> unlock_userId = userId, unlock_storeId = storeId, unlockedAt = now \<rparr>] \<rparr>)"
    if "consistent db'" and "gameBusiness db' = gameBusiness db" for db'
    using that True by (simp add: consistent_def)
  with True assms c2 show ?thesis
    by (auto simp add: post_unlock_def gameBusiness_findUnique_eq unlock_create_def Let_def
                       others_consistent
             split: option.splits)
qed

text \<open>
  The record C8 asks for is the one a first request leaves behind: alone, on a store that
  exists, a first unlock at time \<open>t\<^sub>1\<close> appends the record.
\<close>

lemma post_unlock_first:
  assumes "storeId \<in> set (gameBusiness db)"
    and "unlock_findUnique db userId storeId = None"
  shows "post_unlock t\<^sub>1 [] [] db userId storeId =
           (NewlyUnlocked t\<^sub>1,
            db \<lparr> userUnlockedStoreReview := userUnlockedStoreReview db @
                   [\<lparr> unlock_userId = userId, unlock_storeId = storeId, unlockedAt = t\<^sub>1 \<rparr>] \<rparr>)"
  using assms
  by (simp add: post_unlock_def others_def gameBusiness_findUnique_eq unlock_create_def Let_def)

text \<open>
  The \<^verbatim>\<open>catch\<close> is reached: when no record exists at this request's ledger lookup and
  another request creates it before this one's \<^verbatim>\<open>create\<close> (a double tap), the unique
  key makes this \<^verbatim>\<open>create\<close> throw and the answer is 500. The ledger still holds one
  record for the pair. C8 is about a record that exists before the request, which this
  is not.
\<close>

lemma post_unlock_double_tap:
  "unlock_findUnique fresh_db ''u1'' 7 = None \<and>
   fst (post_unlock 2000 [] [(1500, ''u1'', 7)] fresh_db ''u1'' 7) = InternalServerError \<and>
   unlock_rows (snd (post_unlock 2000 [] [(1500, ''u1'', 7)] fresh_db ''u1'' 7)) ''u1'' 7 =
     [\<lparr> unlock_userId = ''u1'', unlock_storeId = 7, unlockedAt = 1500 \<rparr>]"
  by (simp add: post_unlock_def others_def other_create_def gameBusiness_findUnique_def
                unlock_findUnique_def unlock_create_def unlock_rows_def fresh_db_def Let_def)



end
